theory Spec2Isabelle
  imports Complex_Main "HOL-Library.Word"
begin

section \<open>The scene manager of the desk scene (Source/SceneManager.cpp)\<close>

text \<open>
  The class \<open>SceneManager\<close> keeps a table of 16 texture entries, a vector of materials
  and a pointer to the shader manager, and talks to OpenGL, to the image decoder
  (\<open>stbi_load\<close>) and to glm. The embedding keeps the member names of the source. What the
  source leaves to C++ undefined behaviour (an array access outside \<open>m_textureIDs\<close>, a call
  through a null \<open>m_pShaderManager\<close>) is a value of type \<open>fault\<close>: a function that can
  reach one returns \<open>fault + 'a\<close>, with \<open>Inl\<close> for the fault.

  The type \<open>'f\<close> stands for \<open>float\<close> and \<open>'m\<close> for \<open>glm::mat4\<close>: the code only moves such
  values around and hands them to glm and to the shader manager, so they stay abstract.
\<close>

subsection \<open>Faults\<close>

datatype fault =
    OutOfBounds int  \<comment> \<open>access to \<open>m_textureIDs[i]\<close> with \<open>i\<close> outside \<open>0..15\<close>\<close>
  | NullDereference  \<comment> \<open>a member call through a null \<open>m_pShaderManager\<close>\<close>

definition array_read :: "'a list \<Rightarrow> int \<Rightarrow> fault + 'a" where
  "array_read xs i =
     (if 0 \<le> i \<and> i < int (length xs) then Inr (xs ! nat i) else Inl (OutOfBounds i))"

definition array_write :: "'a list \<Rightarrow> int \<Rightarrow> 'a \<Rightarrow> fault + 'a list" where
  "array_write xs i v =
     (if 0 \<le> i \<and> i < int (length xs) then Inr (xs[nat i := v]) else Inl (OutOfBounds i))"

subsection \<open>The OpenGL context\<close>

text \<open>
  OpenGL is an external library. The model keeps what the scene manager can observe or
  change: the active texture unit, the texture bound to \<open>GL_TEXTURE_2D\<close> on each unit, the
  texture names handed out by \<open>glGenTextures\<close> and not deleted since, and the calls that
  configure the texture bound on the active unit. Names come from a counter; which names
  a driver returns is its own choice.
\<close>

type_synonym GLuint = "32 word"

datatype gl_pname =
  GL_TEXTURE_WRAP_S | GL_TEXTURE_WRAP_T | GL_TEXTURE_MIN_FILTER | GL_TEXTURE_MAG_FILTER

datatype gl_param = GL_REPEAT | GL_LINEAR

datatype gl_format = GL_RGB8 | GL_RGBA8

datatype gl_config =
    TexParameteri GLuint gl_pname gl_param
  | TexImage2D GLuint gl_format int int
  | GenerateMipmap GLuint

record gl_state =
  gl_active :: int  \<comment> \<open>the active texture unit, as an offset from \<open>GL_TEXTURE0\<close>\<close>
  gl_bound :: "int \<Rightarrow> GLuint"  \<comment> \<open>unit to the texture bound to \<open>GL_TEXTURE_2D\<close> there\<close>
  gl_names :: "GLuint list"  \<comment> \<open>generated and not deleted\<close>
  gl_next :: GLuint
  gl_configs :: "gl_config list"

definition glGenTextures :: "gl_state \<Rightarrow> GLuint \<times> gl_state" where
  "glGenTextures g =
     (gl_next g, g\<lparr>gl_names := gl_names g @ [gl_next g], gl_next := gl_next g + 1\<rparr>)"

text \<open>The call that releases a name. Nothing in \<open>SceneManager.cpp\<close> makes it.\<close>

definition glDeleteTextures :: "GLuint \<Rightarrow> gl_state \<Rightarrow> gl_state" where
  "glDeleteTextures n g = g\<lparr>gl_names := removeAll n (gl_names g)\<rparr>"

definition glActiveTexture :: "int \<Rightarrow> gl_state \<Rightarrow> gl_state" where
  "glActiveTexture unit g = g\<lparr>gl_active := unit\<rparr>"

definition glBindTexture :: "GLuint \<Rightarrow> gl_state \<Rightarrow> gl_state" where
  "glBindTexture n g = g\<lparr>gl_bound := (gl_bound g)(gl_active g := n)\<rparr>"

definition glTexParameteri :: "gl_pname \<Rightarrow> gl_param \<Rightarrow> gl_state \<Rightarrow> gl_state" where
  "glTexParameteri pname param g =
     g\<lparr>gl_configs := gl_configs g @ [TexParameteri (gl_bound g (gl_active g)) pname param]\<rparr>"

definition glTexImage2D :: "gl_format \<Rightarrow> int \<Rightarrow> int \<Rightarrow> gl_state \<Rightarrow> gl_state" where
  "glTexImage2D fmt w h g =
     g\<lparr>gl_configs := gl_configs g @ [TexImage2D (gl_bound g (gl_active g)) fmt w h]\<rparr>"

definition glGenerateMipmap :: "gl_state \<Rightarrow> gl_state" where
  "glGenerateMipmap g =
     g\<lparr>gl_configs := gl_configs g @ [GenerateMipmap (gl_bound g (gl_active g))]\<rparr>"

subsection \<open>The shader manager\<close>

text \<open>
  The shader manager is external too: each of its setters stores a value under a uniform's
  name. The scene manager never reads a uniform back.
\<close>

datatype ('f, 'm) uniform =
    IntValue int
  | BoolValue bool
  | FloatValue 'f
  | Vec2Value 'f 'f
  | Vec3Value "'f \<times> 'f \<times> 'f"
  | Vec4Value "'f \<times> 'f \<times> 'f \<times> 'f"
  | Mat4Value 'm
  | Sampler2DValue int

type_synonym ('f, 'm) ShaderManager = "string \<Rightarrow> ('f, 'm) uniform option"

definition setIntValue ::
  "string \<Rightarrow> int \<Rightarrow> ('f, 'm) ShaderManager \<Rightarrow> ('f, 'm) ShaderManager" where
  "setIntValue name v sh = sh(name \<mapsto> IntValue v)"

definition setFloatValue ::
  "string \<Rightarrow> 'f \<Rightarrow> ('f, 'm) ShaderManager \<Rightarrow> ('f, 'm) ShaderManager" where
  "setFloatValue name v sh = sh(name \<mapsto> FloatValue v)"

definition setVec2Value ::
  "string \<Rightarrow> 'f \<times> 'f \<Rightarrow> ('f, 'm) ShaderManager \<Rightarrow> ('f, 'm) ShaderManager" where
  "setVec2Value name v sh = sh(name \<mapsto> Vec2Value (fst v) (snd v))"

definition setVec3Value ::
  "string \<Rightarrow> 'f \<times> 'f \<times> 'f \<Rightarrow> ('f, 'm) ShaderManager \<Rightarrow> ('f, 'm) ShaderManager" where
  "setVec3Value name v sh = sh(name \<mapsto> Vec3Value v)"

definition setVec4Value ::
  "string \<Rightarrow> 'f \<times> 'f \<times> 'f \<times> 'f \<Rightarrow> ('f, 'm) ShaderManager \<Rightarrow> ('f, 'm) ShaderManager" where
  "setVec4Value name v sh = sh(name \<mapsto> Vec4Value v)"

definition setMat4Value ::
  "string \<Rightarrow> 'm \<Rightarrow> ('f, 'm) ShaderManager \<Rightarrow> ('f, 'm) ShaderManager" where
  "setMat4Value name v sh = sh(name \<mapsto> Mat4Value v)"

definition setSampler2DValue ::
  "string \<Rightarrow> int \<Rightarrow> ('f, 'm) ShaderManager \<Rightarrow> ('f, 'm) ShaderManager" where
  "setSampler2DValue name v sh = sh(name \<mapsto> Sampler2DValue v)"

definition g_ModelName :: string where "g_ModelName = ''model''"
definition g_ColorValueName :: string where "g_ColorValueName = ''objectColor''"
definition g_TextureValueName :: string where "g_TextureValueName = ''objectTexture''"
definition g_UseTextureName :: string where "g_UseTextureName = ''bUseTexture''"

subsection \<open>The members of the scene manager\<close>

text \<open>
  \<open>SceneManager.h\<close> is not among the sources. The fields below are the ones the code
  uses: \<open>ID\<close> is passed to \<open>glGenTextures\<close> by address, so it is a 32-bit unsigned integer,
  and \<open>m_loadedTextures\<close> is compared with \<open>int\<close> counters.
\<close>

record TEXTURE_INFO =
  tag :: string
  ID :: GLuint

record 'f OBJECT_MATERIAL =
  diffuseColor :: "'f \<times> 'f \<times> 'f"
  specularColor :: "'f \<times> 'f \<times> 'f"
  shininess :: 'f
  tag :: string

record ('f, 'm) SceneManager =
  m_pShaderManager :: "('f, 'm) ShaderManager option"  \<comment> \<open>\<open>None\<close> is \<open>NULL\<close>\<close>
  m_textureIDs :: "TEXTURE_INFO list"  \<comment> \<open>the array \<open>m_textureIDs[16]\<close>\<close>
  m_loadedTextures :: int
  m_objectMaterials :: "'f OBJECT_MATERIAL list"
  gl :: gl_state  \<comment> \<open>the OpenGL context the object works on\<close>

text \<open>The constructor: every slot gets the tag \<open>"/0"\<close> and the ID \<open>-1\<close>, the count is 0.\<close>

definition empty_slot :: TEXTURE_INFO where
  "empty_slot = \<lparr>TEXTURE_INFO.tag = ''/0'', ID = - 1\<rparr>"

definition SceneManager_new ::
  "('f, 'm) ShaderManager option \<Rightarrow> gl_state \<Rightarrow> ('f, 'm) SceneManager" where
  "SceneManager_new pShaderManager g =
     \<lparr>m_pShaderManager = pShaderManager,
      m_textureIDs = replicate 16 empty_slot,
      m_loadedTextures = 0,
      m_objectMaterials = [],
      gl = g\<rparr>"

text \<open>
  A table as C++ has it: 16 slots, and a count that has not run past them (once it has,
  the program has already written outside the array).
\<close>

definition registry_ok :: "('f, 'm) SceneManager \<Rightarrow> bool" where
  "registry_ok sm \<longleftrightarrow>
     length (m_textureIDs sm) = 16 \<and> 0 \<le> m_loadedTextures sm \<and> m_loadedTextures sm \<le> 16"

subsection \<open>FindTextureID and FindTextureSlot\<close>

function FindTextureID_while ::
  "('f, 'm) SceneManager \<Rightarrow> string \<Rightarrow> int \<Rightarrow> int \<Rightarrow> bool \<Rightarrow> fault + int" where
  "FindTextureID_while sm tg textureID index bFound =
     (if index < m_loadedTextures sm \<and> bFound = False then
        (case array_read (m_textureIDs sm) index of
           Inl e \<Rightarrow> Inl e
         | Inr t \<Rightarrow>
             if TEXTURE_INFO.tag t = tg
             then FindTextureID_while sm tg (sint (ID t)) index True
             else FindTextureID_while sm tg textureID (index + 1) bFound)
      else Inr textureID)"
  by pat_completeness auto
termination
  by (relation "measure (\<lambda>(sm, tg, textureID, index, bFound).
        nat (m_loadedTextures sm - index) + (if bFound then 0 else 1))") auto

definition FindTextureID :: "('f, 'm) SceneManager \<Rightarrow> string \<Rightarrow> fault + int" where
  "FindTextureID sm tg = FindTextureID_while sm tg (- 1) 0 False"

function FindTextureSlot_while ::
  "('f, 'm) SceneManager \<Rightarrow> string \<Rightarrow> int \<Rightarrow> int \<Rightarrow> bool \<Rightarrow> fault + int" where
  "FindTextureSlot_while sm tg textureSlot index bFound =
     (if index < m_loadedTextures sm \<and> bFound = False then
        (case array_read (m_textureIDs sm) index of
           Inl e \<Rightarrow> Inl e
         | Inr t \<Rightarrow>
             if TEXTURE_INFO.tag t = tg
             then FindTextureSlot_while sm tg index index True
             else FindTextureSlot_while sm tg textureSlot (index + 1) bFound)
      else Inr textureSlot)"
  by pat_completeness auto
termination
  by (relation "measure (\<lambda>(sm, tg, textureSlot, index, bFound).
        nat (m_loadedTextures sm - index) + (if bFound then 0 else 1))") auto

definition FindTextureSlot :: "('f, 'm) SceneManager \<Rightarrow> string \<Rightarrow> fault + int" where
  "FindTextureSlot sm tg = FindTextureSlot_while sm tg (- 1) 0 False"

subsection \<open>CreateGLTexture\<close>

text \<open>
  \<open>stbi_load\<close> is the image decoder: from a file name to the decoded image, or nothing
  when the file cannot be read. The model keeps the size and the channel count of an
  image, not its pixels, and takes the decoder as a parameter. The messages written to
  \<open>std::cout\<close> are left out.
\<close>

record stb_image =
  width :: int
  height :: int
  colorChannels :: int

text \<open>
  The end of a successful call, after the channel test: mipmaps, unbind, and the entry
  written at index \<open>m_loadedTextures\<close>. Nothing in the source compares that index with 16.
\<close>

definition CreateGLTexture_register ::
  "GLuint \<Rightarrow> string \<Rightarrow> ('f, 'm) SceneManager \<Rightarrow> fault + (bool \<times> ('f, 'm) SceneManager)" where
  "CreateGLTexture_register textureID tg sm =
     (let g = glBindTexture 0 (glGenerateMipmap (gl sm)) in
      case array_write (m_textureIDs sm) (m_loadedTextures sm)
             \<lparr>TEXTURE_INFO.tag = tg, ID = textureID\<rparr> of
        Inl e \<Rightarrow> Inl e
      | Inr a \<Rightarrow>
          Inr (True, sm\<lparr>m_textureIDs := a,
                          m_loadedTextures := m_loadedTextures sm + 1,
                          gl := g\<rparr>))"

definition CreateGLTexture ::
  "(string \<Rightarrow> stb_image option) \<Rightarrow> string \<Rightarrow> string \<Rightarrow> ('f, 'm) SceneManager
     \<Rightarrow> fault + (bool \<times> ('f, 'm) SceneManager)" where
  "CreateGLTexture stbi_load filename tg sm =
     (case stbi_load filename of
        Some img \<Rightarrow>
          (let (textureID, g0) = glGenTextures (gl sm);
               g1 = glBindTexture textureID g0;
               g2 = glTexParameteri GL_TEXTURE_WRAP_S GL_REPEAT g1;
               g3 = glTexParameteri GL_TEXTURE_WRAP_T GL_REPEAT g2;
               g4 = glTexParameteri GL_TEXTURE_MIN_FILTER GL_LINEAR g3;
               g5 = glTexParameteri GL_TEXTURE_MAG_FILTER GL_LINEAR g4
           in if colorChannels img = 3 then
                CreateGLTexture_register textureID tg
                  (sm\<lparr>gl := glTexImage2D GL_RGB8 (width img) (height img) g5\<rparr>)
              else if colorChannels img = 4 then
                CreateGLTexture_register textureID tg
                  (sm\<lparr>gl := glTexImage2D GL_RGBA8 (width img) (height img) g5\<rparr>)
              else Inr (False, sm\<lparr>gl := g5\<rparr>))
      | None \<Rightarrow> Inr (False, sm))"

text \<open>A sequence of calls, one after the other, whatever each call returns.\<close>

fun CreateGLTexture_seq ::
  "(string \<Rightarrow> stb_image option) \<Rightarrow> (string \<times> string) list \<Rightarrow> ('f, 'm) SceneManager
     \<Rightarrow> fault + ('f, 'm) SceneManager" where
  "CreateGLTexture_seq stbi_load [] sm = Inr sm"
| "CreateGLTexture_seq stbi_load ((filename, tg) # calls) sm =
     (case CreateGLTexture stbi_load filename tg sm of
        Inl e \<Rightarrow> Inl e
      | Inr (bReturn, sm') \<Rightarrow> CreateGLTexture_seq stbi_load calls sm')"

text \<open>The calls that get past the two tests of \<open>CreateGLTexture\<close>.\<close>

definition loadable :: "(string \<Rightarrow> stb_image option) \<Rightarrow> string \<times> string \<Rightarrow> bool" where
  "loadable stbi_load c =
     (case stbi_load (fst c) of
        None \<Rightarrow> False
      | Some img \<Rightarrow> colorChannels img = 3 \<or> colorChannels img = 4)"

definition registered_tags :: "('f, 'm) SceneManager \<Rightarrow> string list" where
  "registered_tags sm = map TEXTURE_INFO.tag (take (nat (m_loadedTextures sm)) (m_textureIDs sm))"

subsection \<open>BindGLTextures and DestroyGLTextures\<close>

function BindGLTextures_for ::
  "int \<Rightarrow> ('f, 'm) SceneManager \<Rightarrow> fault + ('f, 'm) SceneManager" where
  "BindGLTextures_for i sm =
     (if i < m_loadedTextures sm then
        (case array_read (m_textureIDs sm) i of
           Inl e \<Rightarrow> Inl e
         | Inr t \<Rightarrow>
             BindGLTextures_for (i + 1)
               (sm\<lparr>gl := glBindTexture (ID t) (glActiveTexture i (gl sm))\<rparr>))
      else Inr sm)"
  by pat_completeness auto
termination
  by (relation "measure (\<lambda>(i, sm). nat (m_loadedTextures sm - i))") auto

definition BindGLTextures :: "('f, 'm) SceneManager \<Rightarrow> fault + ('f, 'm) SceneManager" where
  "BindGLTextures sm = BindGLTextures_for 0 sm"

text \<open>
  The loop of \<open>DestroyGLTextures\<close> calls \<open>glGenTextures(1, &m_textureIDs[i].ID)\<close>: the new
  name goes into the slot.
\<close>

function DestroyGLTextures_for ::
  "int \<Rightarrow> ('f, 'm) SceneManager \<Rightarrow> fault + ('f, 'm) SceneManager" where
  "DestroyGLTextures_for i sm =
     (if i < m_loadedTextures sm then
        (case array_read (m_textureIDs sm) i of
           Inl e \<Rightarrow> Inl e
         | Inr t \<Rightarrow>
             DestroyGLTextures_for (i + 1)
               (sm\<lparr>m_textureIDs := (m_textureIDs sm)[nat i := t\<lparr>ID := fst (glGenTextures (gl sm))\<rparr>],
                    gl := snd (glGenTextures (gl sm))\<rparr>))
      else Inr sm)"
  by pat_completeness auto
termination
  by (relation "measure (\<lambda>(i, sm). nat (m_loadedTextures sm - i))") auto

definition DestroyGLTextures :: "('f, 'm) SceneManager \<Rightarrow> fault + ('f, 'm) SceneManager" where
  "DestroyGLTextures sm = DestroyGLTextures_for 0 sm"

text \<open>
  The destructor clears the pointer to the shader manager, deletes the mesh object (which
  the model does not hold) and calls \<open>DestroyGLTextures\<close>.
\<close>

definition SceneManager_delete :: "('f, 'm) SceneManager \<Rightarrow> fault + ('f, 'm) SceneManager" where
  "SceneManager_delete sm = DestroyGLTextures (sm\<lparr>m_pShaderManager := None\<rparr>)"

subsection \<open>FindMaterial\<close>

text \<open>
  The loop compares the \<open>int\<close> index with \<open>m_objectMaterials.size()\<close>, which is unsigned.
  The material found is copied field by field into the caller's \<open>material\<close>, the tag apart.
\<close>

function FindMaterial_while ::
  "('f, 'm) SceneManager \<Rightarrow> string \<Rightarrow> 'f OBJECT_MATERIAL \<Rightarrow> int \<Rightarrow> bool
     \<Rightarrow> 'f OBJECT_MATERIAL \<times> bool" where
  "FindMaterial_while sm tg material index bFound =
     (if 0 \<le> index \<and> index < int (length (m_objectMaterials sm)) \<and> bFound = False then
        (if OBJECT_MATERIAL.tag (m_objectMaterials sm ! nat index) = tg
         then FindMaterial_while sm tg
                (material\<lparr>diffuseColor := diffuseColor (m_objectMaterials sm ! nat index),
                          specularColor := specularColor (m_objectMaterials sm ! nat index),
                          shininess := shininess (m_objectMaterials sm ! nat index)\<rparr>)
                index True
         else FindMaterial_while sm tg material (index + 1) bFound)
      else (material, bFound))"
  by pat_completeness auto
termination
  by (relation "measure (\<lambda>(sm, tg, material, index, bFound).
        nat (int (length (m_objectMaterials sm)) - index) + (if bFound then 0 else 1))") auto

definition FindMaterial ::
  "('f, 'm) SceneManager \<Rightarrow> string \<Rightarrow> 'f OBJECT_MATERIAL \<Rightarrow> bool \<times> 'f OBJECT_MATERIAL" where
  "FindMaterial sm tg material =
     (if length (m_objectMaterials sm) = 0 then (False, material)
      else (True, fst (FindMaterial_while sm tg material 0 False)))"

subsection \<open>The uniform setters\<close>

text \<open>
  glm is external: its operations are parameters, and so are the two \<open>float\<close> literals
  \<open>0.0f\<close> and \<open>1.0f\<close> of the rotation axes. \<open>glm_times\<close> is \<open>operator*\<close> on \<open>glm::mat4\<close>, which
  C++ applies from left to right.
\<close>

record ('f, 'm) glm =
  glm_scale :: "'f \<times> 'f \<times> 'f \<Rightarrow> 'm"
  glm_rotate :: "'f \<Rightarrow> 'f \<times> 'f \<times> 'f \<Rightarrow> 'm"
  glm_translate :: "'f \<times> 'f \<times> 'f \<Rightarrow> 'm"
  glm_radians :: "'f \<Rightarrow> 'f"
  glm_times :: "'m \<Rightarrow> 'm \<Rightarrow> 'm"
  float_0 :: 'f
  float_1 :: 'f

definition modelView ::
  "('f, 'm) glm \<Rightarrow> 'f \<times> 'f \<times> 'f \<Rightarrow> 'f \<Rightarrow> 'f \<Rightarrow> 'f \<Rightarrow> 'f \<times> 'f \<times> 'f \<Rightarrow> 'm" where
  "modelView G scaleXYZ XrotationDegrees YrotationDegrees ZrotationDegrees positionXYZ =
     (let scale = glm_scale G scaleXYZ;
          rotationX = glm_rotate G (glm_radians G XrotationDegrees) (float_1 G, float_0 G, float_0 G);
          rotationY = glm_rotate G (glm_radians G YrotationDegrees) (float_0 G, float_1 G, float_0 G);
          rotationZ = glm_rotate G (glm_radians G ZrotationDegrees) (float_0 G, float_0 G, float_1 G);
          translation = glm_translate G positionXYZ
      in glm_times G (glm_times G (glm_times G (glm_times G translation rotationZ) rotationY)
           rotationX) scale)"

definition SetTransformations ::
  "('f, 'm) glm \<Rightarrow> 'f \<times> 'f \<times> 'f \<Rightarrow> 'f \<Rightarrow> 'f \<Rightarrow> 'f \<Rightarrow> 'f \<times> 'f \<times> 'f
     \<Rightarrow> ('f, 'm) SceneManager \<Rightarrow> ('f, 'm) SceneManager" where
  "SetTransformations G scaleXYZ XrotationDegrees YrotationDegrees ZrotationDegrees positionXYZ sm =
     (case m_pShaderManager sm of
        None \<Rightarrow> sm
      | Some sh \<Rightarrow>
          sm\<lparr>m_pShaderManager :=
               Some (setMat4Value g_ModelName
                 (modelView G scaleXYZ XrotationDegrees YrotationDegrees ZrotationDegrees
                    positionXYZ) sh)\<rparr>)"

definition SetShaderColor ::
  "'f \<Rightarrow> 'f \<Rightarrow> 'f \<Rightarrow> 'f \<Rightarrow> ('f, 'm) SceneManager \<Rightarrow> ('f, 'm) SceneManager" where
  "SetShaderColor redColorValue greenColorValue blueColorValue alphaValue sm =
     (let currentColor = (redColorValue, greenColorValue, blueColorValue, alphaValue) in
      case m_pShaderManager sm of
        None \<Rightarrow> sm
      | Some sh \<Rightarrow>
          sm\<lparr>m_pShaderManager :=
               Some (setVec4Value g_ColorValueName currentColor
                       (setIntValue g_UseTextureName 0 sh))\<rparr>)"

definition SetShaderTexture ::
  "string \<Rightarrow> ('f, 'm) SceneManager \<Rightarrow> fault + ('f, 'm) SceneManager" where
  "SetShaderTexture textureTag sm =
     (case m_pShaderManager sm of
        None \<Rightarrow> Inr sm
      | Some sh \<Rightarrow>
          (case FindTextureSlot sm textureTag of
             Inl e \<Rightarrow> Inl e
           | Inr textureID \<Rightarrow>
               Inr (sm\<lparr>m_pShaderManager :=
                          Some (setSampler2DValue g_TextureValueName textureID
                                  (setIntValue g_UseTextureName 1 sh))\<rparr>)))"

definition SetTextureUVScale ::
  "'f \<Rightarrow> 'f \<Rightarrow> ('f, 'm) SceneManager \<Rightarrow> ('f, 'm) SceneManager" where
  "SetTextureUVScale u v sm =
     (case m_pShaderManager sm of
        None \<Rightarrow> sm
      | Some sh \<Rightarrow> sm\<lparr>m_pShaderManager := Some (setVec2Value ''UVscale'' (u, v) sh)\<rparr>)"

text \<open>
  \<open>SetShaderMaterial\<close> declares its \<open>material\<close> without a value: what the variable holds
  before \<open>FindMaterial\<close> writes to it is the parameter \<open>uninitialised\<close>. The three calls go
  through \<open>m_pShaderManager\<close> with no test of the pointer.
\<close>

definition SetShaderMaterial ::
  "'f OBJECT_MATERIAL \<Rightarrow> string \<Rightarrow> ('f, 'm) SceneManager \<Rightarrow> fault + ('f, 'm) SceneManager" where
  "SetShaderMaterial uninitialised materialTag sm =
     (if length (m_objectMaterials sm) > 0 then
        (let (bReturn, material) = FindMaterial sm materialTag uninitialised in
         if bReturn = True then
           (case m_pShaderManager sm of
              None \<Rightarrow> Inl NullDereference
            | Some sh \<Rightarrow>
                Inr (sm\<lparr>m_pShaderManager :=
                  Some (setFloatValue ''material.shininess'' (shininess material)
                         (setVec3Value ''material.specularColor'' (specularColor material)
                           (setVec3Value ''material.diffuseColor'' (diffuseColor material) sh)))\<rparr>))
         else Inr sm)
      else Inr sm)"

subsection \<open>LoadSceneTextures\<close>

definition LoadSceneTextures ::
  "(string \<Rightarrow> stb_image option) \<Rightarrow> ('f, 'm) SceneManager \<Rightarrow> fault + ('f, 'm) SceneManager" where
  "LoadSceneTextures stbi_load sm =
     (case CreateGLTexture_seq stbi_load
             [(''textures/Desk texture.jpg'', ''DeskTexture''),
              (''textures/BlackBezzle.jpg'', ''BlackBezzle''),
              (''textures/Steel.jpg'', ''Steel''),
              (''textures/coffeecuptexture.jpg'', ''CupTexture'')] sm of
        Inl e \<Rightarrow> Inl e
      | Inr sm' \<Rightarrow> BindGLTextures sm')"

subsection \<open>Concrete scenes\<close>

text \<open>
  A context with no texture yet, a disk holding the four images of the scene and one
  two-channel image, and the scene manager after \<open>LoadSceneTextures\<close> on both.
\<close>

definition gl_fresh :: gl_state where
  "gl_fresh =
     \<lparr>gl_active = 0, gl_bound = (\<lambda>unit. 0), gl_names = [], gl_next = 1, gl_configs = []\<rparr>"

definition scene_files :: "string \<Rightarrow> stb_image option" where
  "scene_files filename =
     (if filename = ''textures/Desk texture.jpg''
      then Some \<lparr>width = 512, height = 512, colorChannels = 3\<rparr>
      else if filename = ''textures/BlackBezzle.jpg''
      then Some \<lparr>width = 256, height = 256, colorChannels = 3\<rparr>
      else if filename = ''textures/Steel.jpg''
      then Some \<lparr>width = 256, height = 256, colorChannels = 4\<rparr>
      else if filename = ''textures/coffeecuptexture.jpg''
      then Some \<lparr>width = 128, height = 128, colorChannels = 3\<rparr>
      else if filename = ''textures/grey.png''
      then Some \<lparr>width = 64, height = 64, colorChannels = 2\<rparr>
      else None)"

definition loaded_scene :: "(real, 'm) SceneManager" where
  "loaded_scene =
     \<lparr>m_pShaderManager = Some Map.empty,
      m_textureIDs =
        [\<lparr>TEXTURE_INFO.tag = ''DeskTexture'', ID = 1\<rparr>,
         \<lparr>TEXTURE_INFO.tag = ''BlackBezzle'', ID = 2\<rparr>,
         \<lparr>TEXTURE_INFO.tag = ''Steel'', ID = 3\<rparr>,
         \<lparr>TEXTURE_INFO.tag = ''CupTexture'', ID = 4\<rparr>] @ replicate 12 empty_slot,
      m_loadedTextures = 4,
      m_objectMaterials = [],
      gl = \<lparr>gl_active = 3,
            gl_bound = (\<lambda>unit. 0)(0 := 1, 1 := 2, 2 := 3, 3 := 4),
            gl_names = [1, 2, 3, 4],
            gl_next = 5,
            gl_configs =
              [TexParameteri 1 GL_TEXTURE_WRAP_S GL_REPEAT,
               TexParameteri 1 GL_TEXTURE_WRAP_T GL_REPEAT,
               TexParameteri 1 GL_TEXTURE_MIN_FILTER GL_LINEAR,
               TexParameteri 1 GL_TEXTURE_MAG_FILTER GL_LINEAR,
               TexImage2D 1 GL_RGB8 512 512, GenerateMipmap 1,
               TexParameteri 2 GL_TEXTURE_WRAP_S GL_REPEAT,
               TexParameteri 2 GL_TEXTURE_WRAP_T GL_REPEAT,
               TexParameteri 2 GL_TEXTURE_MIN_FILTER GL_LINEAR,
               TexParameteri 2 GL_TEXTURE_MAG_FILTER GL_LINEAR,
               TexImage2D 2 GL_RGB8 256 256, GenerateMipmap 2,
               TexParameteri 3 GL_TEXTURE_WRAP_S GL_REPEAT,
               TexParameteri 3 GL_TEXTURE_WRAP_T GL_REPEAT,
               TexParameteri 3 GL_TEXTURE_MIN_FILTER GL_LINEAR,
               TexParameteri 3 GL_TEXTURE_MAG_FILTER GL_LINEAR,
               TexImage2D 3 GL_RGBA8 256 256, GenerateMipmap 3,
               TexParameteri 4 GL_TEXTURE_WRAP_S GL_REPEAT,
               TexParameteri 4 GL_TEXTURE_WRAP_T GL_REPEAT,
               TexParameteri 4 GL_TEXTURE_MIN_FILTER GL_LINEAR,
               TexParameteri 4 GL_TEXTURE_MAG_FILTER GL_LINEAR,
               TexImage2D 4 GL_RGB8 128 128, GenerateMipmap 4]\<rparr>\<rparr>"

text \<open>
  \<open>DefineObjectMaterials\<close>, with each \<open>float\<close> literal read as the decimal number it is
  written as.
\<close>

definition DefineObjectMaterials :: "(real, 'm) SceneManager \<Rightarrow> (real, 'm) SceneManager" where
  "DefineObjectMaterials sm =
     (let goldMaterial =
            \<lparr>diffuseColor = (0.4, 0.4, 0.4), specularColor = (0.7, 0.7, 0.6),
             shininess = 60.0, OBJECT_MATERIAL.tag = ''metal''\<rparr>;
          woodMaterial =
            \<lparr>diffuseColor = (0.2, 0.2, 0.3), specularColor = (0.0, 0.0, 0.0),
             shininess = 0.1, OBJECT_MATERIAL.tag = ''wood''\<rparr>;
          glassMaterial =
            \<lparr>diffuseColor = (0.7, 0.7, 0.7), specularColor = (1.0, 1.0, 1.0),
             shininess = 90.0, OBJECT_MATERIAL.tag = ''glass''\<rparr>
      in sm\<lparr>m_objectMaterials :=
              ((m_objectMaterials sm @ [goldMaterial]) @ [woodMaterial]) @ [glassMaterial]\<rparr>)"

text \<open>What a local \<open>OBJECT_MATERIAL\<close> may hold before anything is written to it.\<close>

definition stale_material :: "real OBJECT_MATERIAL" where
  "stale_material =
     \<lparr>diffuseColor = (9, 9, 9), specularColor = (9, 9, 9), shininess = 9,
      OBJECT_MATERIAL.tag = ''''\<rparr>"

text \<open>Seventeen registrations with seventeen tags, each of a file that decodes.\<close>

definition seventeen_textures :: "(string \<times> string) list" where
  "seventeen_textures =
     [(''textures/Steel.jpg'', ''T00''), (''textures/Steel.jpg'', ''T01''),
      (''textures/Steel.jpg'', ''T02''), (''textures/Steel.jpg'', ''T03''),
      (''textures/Steel.jpg'', ''T04''), (''textures/Steel.jpg'', ''T05''),
      (''textures/Steel.jpg'', ''T06''), (''textures/Steel.jpg'', ''T07''),
      (''textures/Steel.jpg'', ''T08''), (''textures/Steel.jpg'', ''T09''),
      (''textures/Steel.jpg'', ''T10''), (''textures/Steel.jpg'', ''T11''),
      (''textures/Steel.jpg'', ''T12''), (''textures/Steel.jpg'', ''T13''),
      (''textures/Steel.jpg'', ''T14''), (''textures/Steel.jpg'', ''T15''),
      (''textures/Steel.jpg'', ''T16'')]"

text \<open>glm as a term algebra: every matrix is the expression that built it.\<close>

datatype mat4_term =
    Scale "real \<times> real \<times> real"
  | Rotate real "real \<times> real \<times> real"
  | Translate "real \<times> real \<times> real"
  | Times mat4_term mat4_term

definition glm_terms :: "(real, mat4_term) glm" where
  "glm_terms =
     \<lparr>glm_scale = Scale, glm_rotate = Rotate, glm_translate = Translate,
      glm_radians = (\<lambda>degrees. degrees * pi / 180), glm_times = Times,
      float_0 = 0, float_1 = 1\<rparr>"

section \<open>Properties\<close>

subsection \<open>Evaluation\<close>

declare FindTextureID_while.simps [simp del] FindTextureSlot_while.simps [simp del]
  BindGLTextures_for.simps [simp del] DestroyGLTextures_for.simps [simp del]
  FindMaterial_while.simps [simp del]

lemma replicate_16:
  "replicate 16 x = [x, x, x, x, x, x, x, x, x, x, x, x, x, x, x, x]"
  by (simp add: numeral_eq_Suc)

lemma replicate_12:
  "replicate 12 x = [x, x, x, x, x, x, x, x, x, x, x, x]"
  by (simp add: numeral_eq_Suc)

lemmas gl_defs = glGenTextures_def glBindTexture_def glTexParameteri_def glTexImage2D_def
  glGenerateMipmap_def glActiveTexture_def

lemmas array_defs = array_read_def array_write_def

lemma array_read_in:
  "0 \<le> i \<Longrightarrow> i < int (length xs) \<Longrightarrow> array_read xs i = Inr (xs ! nat i)"
  by (simp add: array_read_def)

lemma LoadSceneTextures_scene_files:
  "LoadSceneTextures scene_files (SceneManager_new (Some Map.empty) gl_fresh) = Inr loaded_scene"
  by (simp add: LoadSceneTextures_def scene_files_def SceneManager_new_def gl_fresh_def
      CreateGLTexture_def CreateGLTexture_register_def gl_defs array_defs empty_slot_def
      replicate_16 replicate_12 BindGLTextures_def BindGLTextures_for.simps loaded_scene_def)

lemma registry_ok_loaded_scene: "registry_ok loaded_scene"
  by (simp add: registry_ok_def loaded_scene_def)

subsection \<open>The two lookups in the texture table\<close>

lemma FindTextureSlot_while_found:
  "FindTextureSlot_while sm tg textureSlot index True = Inr textureSlot"
  by (subst FindTextureSlot_while.simps) simp

lemma FindTextureID_while_found:
  "FindTextureID_while sm tg textureID index True = Inr textureID"
  by (subst FindTextureID_while.simps) simp

lemma FindTextureSlot_while_miss:
  assumes "registry_ok sm" and "0 \<le> index"
    and "\<forall>j. index \<le> j \<and> j < m_loadedTextures sm
           \<longrightarrow> TEXTURE_INFO.tag (m_textureIDs sm ! nat j) \<noteq> tg"
  shows "FindTextureSlot_while sm tg textureSlot index False = Inr textureSlot"
  using assms
proof (induction "nat (m_loadedTextures sm - index)" arbitrary: index)
  case 0
  then show ?case by (subst FindTextureSlot_while.simps) simp
next
  case (Suc n)
  from Suc.hyps(2) have lt: "index < m_loadedTextures sm" by linarith
  with Suc.prems have rd: "array_read (m_textureIDs sm) index = Inr (m_textureIDs sm ! nat index)"
    by (simp add: array_read_in registry_ok_def)
  from Suc.prems lt have ne: "TEXTURE_INFO.tag (m_textureIDs sm ! nat index) \<noteq> tg" by simp
  have "FindTextureSlot_while sm tg textureSlot (index + 1) False = Inr textureSlot"
    using Suc.hyps(2) Suc.prems by (intro Suc.hyps(1)) auto
  then show ?case
    using lt rd ne by (subst FindTextureSlot_while.simps) simp
qed

lemma FindTextureID_while_miss:
  assumes "registry_ok sm" and "0 \<le> index"
    and "\<forall>j. index \<le> j \<and> j < m_loadedTextures sm
           \<longrightarrow> TEXTURE_INFO.tag (m_textureIDs sm ! nat j) \<noteq> tg"
  shows "FindTextureID_while sm tg textureID index False = Inr textureID"
  using assms
proof (induction "nat (m_loadedTextures sm - index)" arbitrary: index)
  case 0
  then show ?case by (subst FindTextureID_while.simps) simp
next
  case (Suc n)
  from Suc.hyps(2) have lt: "index < m_loadedTextures sm" by linarith
  with Suc.prems have rd: "array_read (m_textureIDs sm) index = Inr (m_textureIDs sm ! nat index)"
    by (simp add: array_read_in registry_ok_def)
  from Suc.prems lt have ne: "TEXTURE_INFO.tag (m_textureIDs sm ! nat index) \<noteq> tg" by simp
  have "FindTextureID_while sm tg textureID (index + 1) False = Inr textureID"
    using Suc.hyps(2) Suc.prems by (intro Suc.hyps(1)) auto
  then show ?case
    using lt rd ne by (subst FindTextureID_while.simps) simp
qed

lemma FindTextureSlot_while_hit:
  assumes "registry_ok sm" and "0 \<le> index" and "index \<le> k" and "k < m_loadedTextures sm"
    and "TEXTURE_INFO.tag (m_textureIDs sm ! nat k) = tg"
    and "\<forall>j. index \<le> j \<and> j < k \<longrightarrow> TEXTURE_INFO.tag (m_textureIDs sm ! nat j) \<noteq> tg"
  shows "FindTextureSlot_while sm tg textureSlot index False = Inr k"
  using assms
proof (induction "nat (k - index)" arbitrary: index)
  case 0
  then have eq: "index = k" by simp
  with 0 have rd: "array_read (m_textureIDs sm) k = Inr (m_textureIDs sm ! nat k)"
    by (simp add: array_read_in registry_ok_def)
  show ?case
    unfolding eq using 0 rd
    by (subst FindTextureSlot_while.simps) (simp add: FindTextureSlot_while_found)
next
  case (Suc n)
  from Suc.hyps(2) have lt: "index < k" by linarith
  with Suc.prems have rd: "array_read (m_textureIDs sm) index = Inr (m_textureIDs sm ! nat index)"
    by (simp add: array_read_in registry_ok_def)
  from Suc.prems lt have ne: "TEXTURE_INFO.tag (m_textureIDs sm ! nat index) \<noteq> tg" by simp
  have "FindTextureSlot_while sm tg textureSlot (index + 1) False = Inr k"
    using Suc.hyps(2) Suc.prems lt by (intro Suc.hyps(1)) auto
  then show ?case
    using lt rd ne Suc.prems by (subst FindTextureSlot_while.simps) simp
qed

lemma FindTextureID_while_hit:
  assumes "registry_ok sm" and "0 \<le> index" and "index \<le> k" and "k < m_loadedTextures sm"
    and "TEXTURE_INFO.tag (m_textureIDs sm ! nat k) = tg"
    and "\<forall>j. index \<le> j \<and> j < k \<longrightarrow> TEXTURE_INFO.tag (m_textureIDs sm ! nat j) \<noteq> tg"
  shows "FindTextureID_while sm tg textureID index False = Inr (sint (ID (m_textureIDs sm ! nat k)))"
  using assms
proof (induction "nat (k - index)" arbitrary: index)
  case 0
  then have eq: "index = k" by simp
  with 0 have rd: "array_read (m_textureIDs sm) k = Inr (m_textureIDs sm ! nat k)"
    by (simp add: array_read_in registry_ok_def)
  show ?case
    unfolding eq using 0 rd
    by (subst FindTextureID_while.simps) (simp add: FindTextureID_while_found)
next
  case (Suc n)
  from Suc.hyps(2) have lt: "index < k" by linarith
  with Suc.prems have rd: "array_read (m_textureIDs sm) index = Inr (m_textureIDs sm ! nat index)"
    by (simp add: array_read_in registry_ok_def)
  from Suc.prems lt have ne: "TEXTURE_INFO.tag (m_textureIDs sm ! nat index) \<noteq> tg" by simp
  have "FindTextureID_while sm tg textureID (index + 1) False
          = Inr (sint (ID (m_textureIDs sm ! nat k)))"
    using Suc.hyps(2) Suc.prems lt by (intro Suc.hyps(1)) auto
  then show ?case
    using lt rd ne Suc.prems by (subst FindTextureID_while.simps) simp
qed

text \<open>
  Claim C4. In a table of 16 slots whose count has not run past them: a tag that none of
  the registered slots carries makes \<open>FindTextureID\<close> and \<open>FindTextureSlot\<close> return \<open>-1\<close>;
  a tag carried by slot \<open>k\<close> and by no slot before it makes \<open>FindTextureID\<close> return the
  handle of slot \<open>k\<close> (as the \<open>int\<close> the function returns) and \<open>FindTextureSlot\<close> return \<open>k\<close>.
\<close>

theorem FindTexture_first_match_or_sentinel:
  assumes "registry_ok sm"
  shows "((\<forall>j < nat (m_loadedTextures sm). TEXTURE_INFO.tag (m_textureIDs sm ! j) \<noteq> tg)
            \<longrightarrow> FindTextureID sm tg = Inr (- 1) \<and> FindTextureSlot sm tg = Inr (- 1))
       \<and> (\<forall>k. k < nat (m_loadedTextures sm)
               \<and> TEXTURE_INFO.tag (m_textureIDs sm ! k) = tg
               \<and> (\<forall>j < k. TEXTURE_INFO.tag (m_textureIDs sm ! j) \<noteq> tg)
            \<longrightarrow> FindTextureID sm tg = Inr (sint (ID (m_textureIDs sm ! k)))
                \<and> FindTextureSlot sm tg = Inr (int k))"
proof (intro conjI impI allI)
  assume miss: "\<forall>j < nat (m_loadedTextures sm). TEXTURE_INFO.tag (m_textureIDs sm ! j) \<noteq> tg"
  then have m: "\<forall>j. 0 \<le> j \<and> j < m_loadedTextures sm
                  \<longrightarrow> TEXTURE_INFO.tag (m_textureIDs sm ! nat j) \<noteq> tg"
    by auto
  show "FindTextureID sm tg = Inr (- 1)"
    unfolding FindTextureID_def using assms m by (intro FindTextureID_while_miss) auto
  show "FindTextureSlot sm tg = Inr (- 1)"
    unfolding FindTextureSlot_def using assms m by (intro FindTextureSlot_while_miss) auto
next
  fix k
  assume hit: "k < nat (m_loadedTextures sm)
               \<and> TEXTURE_INFO.tag (m_textureIDs sm ! k) = tg
               \<and> (\<forall>j < k. TEXTURE_INFO.tag (m_textureIDs sm ! j) \<noteq> tg)"
  then have k: "int k < m_loadedTextures sm" and t: "TEXTURE_INFO.tag (m_textureIDs sm ! nat (int k)) = tg"
    and b: "\<forall>j. 0 \<le> j \<and> j < int k \<longrightarrow> TEXTURE_INFO.tag (m_textureIDs sm ! nat j) \<noteq> tg"
    by auto
  have "FindTextureID_while sm tg (- 1) 0 False = Inr (sint (ID (m_textureIDs sm ! nat (int k))))"
    using assms k t b by (intro FindTextureID_while_hit) auto
  then show "FindTextureID sm tg = Inr (sint (ID (m_textureIDs sm ! k)))"
    by (simp add: FindTextureID_def)
  have "FindTextureSlot_while sm tg (- 1) 0 False = Inr (int k)"
    using assms k t b by (intro FindTextureSlot_while_hit) auto
  then show "FindTextureSlot sm tg = Inr (int k)"
    by (simp add: FindTextureSlot_def)
qed

theorem FindTexture_first_match_or_sentinel_witness:
  "registry_ok (loaded_scene :: (real, real) SceneManager)
   \<and> FindTextureID (loaded_scene :: (real, real) SceneManager) ''Wood'' = Inr (- 1)
   \<and> FindTextureSlot (loaded_scene :: (real, real) SceneManager) ''Wood'' = Inr (- 1)
   \<and> FindTextureID (loaded_scene :: (real, real) SceneManager) ''Steel'' = Inr 3
   \<and> FindTextureSlot (loaded_scene :: (real, real) SceneManager) ''Steel'' = Inr 2"
proof -
  let ?sm = "loaded_scene :: (real, real) SceneManager"
  have ok: "registry_ok ?sm" by (rule registry_ok_loaded_scene)
  have miss: "\<forall>j < nat (m_loadedTextures ?sm). TEXTURE_INFO.tag (m_textureIDs ?sm ! j) \<noteq> ''Wood''"
    by (simp add: loaded_scene_def less_Suc_eq numeral_eq_Suc)
  have hit: "2 < nat (m_loadedTextures ?sm)
             \<and> TEXTURE_INFO.tag (m_textureIDs ?sm ! 2) = ''Steel''
             \<and> (\<forall>j < 2. TEXTURE_INFO.tag (m_textureIDs ?sm ! j) \<noteq> ''Steel'')"
    by (simp add: loaded_scene_def less_Suc_eq numeral_eq_Suc)
  have id: "sint (ID (m_textureIDs ?sm ! 2)) = 3"
    by (simp add: loaded_scene_def)
  from FindTexture_first_match_or_sentinel [OF ok, of "''Wood''"] miss
  have a: "FindTextureID ?sm ''Wood'' = Inr (- 1) \<and> FindTextureSlot ?sm ''Wood'' = Inr (- 1)"
    by blast
  from FindTexture_first_match_or_sentinel [OF ok, of "''Steel''"] hit
  have "FindTextureID ?sm ''Steel'' = Inr (sint (ID (m_textureIDs ?sm ! 2)))
        \<and> FindTextureSlot ?sm ''Steel'' = Inr (int 2)"
    by blast
  with id have b: "FindTextureID ?sm ''Steel'' = Inr 3 \<and> FindTextureSlot ?sm ''Steel'' = Inr 2"
    by simp
  from ok a b show ?thesis by blast
qed


subsection \<open>CreateGLTexture: the two failures and the full table\<close>

lemma CreateGLTexture_not_loadable:
  assumes "\<not> loadable stbi_load (filename, tg)"
  shows "\<exists>sm'. CreateGLTexture stbi_load filename tg sm = Inr (False, sm')
           \<and> m_textureIDs sm' = m_textureIDs sm
           \<and> m_loadedTextures sm' = m_loadedTextures sm
           \<and> m_pShaderManager sm' = m_pShaderManager sm
           \<and> m_objectMaterials sm' = m_objectMaterials sm"
  using assms
  by (auto simp: loadable_def CreateGLTexture_def glGenTextures_def split: option.splits)

lemma CreateGLTexture_loadable:
  assumes "loadable stbi_load (filename, tg)"
  shows "\<exists>g'. CreateGLTexture stbi_load filename tg sm =
     (case array_write (m_textureIDs sm) (m_loadedTextures sm)
             \<lparr>TEXTURE_INFO.tag = tg, ID = gl_next (gl sm)\<rparr> of
        Inl e \<Rightarrow> Inl e
      | Inr a \<Rightarrow>
          Inr (True, sm\<lparr>m_textureIDs := a, m_loadedTextures := m_loadedTextures sm + 1,
                 gl := g'\<rparr>))"
  using assms
  by (auto simp: loadable_def CreateGLTexture_def CreateGLTexture_register_def glGenTextures_def
      Let_def split: option.splits sum.splits)

lemma CreateGLTexture_full:
  assumes "loadable stbi_load (filename, tg)"
    and "length (m_textureIDs sm) = 16" and "m_loadedTextures sm = 16"
  shows "CreateGLTexture stbi_load filename tg sm = Inl (OutOfBounds 16)"
  using CreateGLTexture_loadable [OF assms(1), of sm] assms(2,3)
  by (auto simp: array_write_def)

text \<open>
  Claim C5. When the file does not decode, or decodes with a channel count other than 3
  and 4, \<open>CreateGLTexture\<close> returns \<open>false\<close> and the table and its count are as before.
\<close>

theorem CreateGLTexture_failure_keeps_registry:
  assumes "stbi_load filename = None
           \<or> (\<exists>img. stbi_load filename = Some img \<and> colorChannels img \<noteq> 3 \<and> colorChannels img \<noteq> 4)"
  shows "\<exists>sm'. CreateGLTexture stbi_load filename tg sm = Inr (False, sm')
           \<and> m_textureIDs sm' = m_textureIDs sm
           \<and> m_loadedTextures sm' = m_loadedTextures sm"
proof -
  from assms have "\<not> loadable stbi_load (filename, tg)"
    by (auto simp: loadable_def)
  from CreateGLTexture_not_loadable [OF this] show ?thesis by blast
qed

theorem CreateGLTexture_failure_keeps_registry_witness:
  "(\<exists>sm'. CreateGLTexture scene_files ''textures/grey.png'' ''Grey''
            (loaded_scene :: (real, real) SceneManager) = Inr (False, sm')
         \<and> m_textureIDs sm' = m_textureIDs (loaded_scene :: (real, real) SceneManager)
         \<and> m_loadedTextures sm' = 4)
   \<and> (\<exists>sm'. CreateGLTexture scene_files ''textures/lost.jpg'' ''Lost''
            (loaded_scene :: (real, real) SceneManager) = Inr (False, sm')
         \<and> m_textureIDs sm' = m_textureIDs (loaded_scene :: (real, real) SceneManager)
         \<and> m_loadedTextures sm' = 4)"
proof -
  let ?sm = "loaded_scene :: (real, real) SceneManager"
  have grey: "scene_files ''textures/grey.png'' = None
      \<or> (\<exists>img. scene_files ''textures/grey.png'' = Some img
                \<and> colorChannels img \<noteq> 3 \<and> colorChannels img \<noteq> 4)"
    by (simp add: scene_files_def)
  have lost: "scene_files ''textures/lost.jpg'' = None
      \<or> (\<exists>img. scene_files ''textures/lost.jpg'' = Some img
                \<and> colorChannels img \<noteq> 3 \<and> colorChannels img \<noteq> 4)"
    by (simp add: scene_files_def)
  have four: "m_loadedTextures ?sm = 4" by (simp add: loaded_scene_def)
  from CreateGLTexture_failure_keeps_registry
         [of scene_files "''textures/grey.png''" "''Grey''" ?sm, OF grey]
    CreateGLTexture_failure_keeps_registry
         [of scene_files "''textures/lost.jpg''" "''Lost''" ?sm, OF lost] four
  show ?thesis by simp
qed

text \<open>
  Claim C2. Sixteen registrations from a new scene manager fill the table; the
  seventeenth call does not return a failure: it writes \<open>m_textureIDs[16]\<close>, outside the
  array.
\<close>

theorem CreateGLTexture_seventeenth_writes_outside:
  "map_sum id m_loadedTextures
     (CreateGLTexture_seq scene_files (take 16 seventeen_textures)
        (SceneManager_new None gl_fresh :: (real, real) SceneManager)) = Inr 16
   \<and> CreateGLTexture_seq scene_files seventeen_textures
        (SceneManager_new None gl_fresh :: (real, real) SceneManager) = Inl (OutOfBounds 16)"
  by (simp add: seventeen_textures_def scene_files_def SceneManager_new_def gl_fresh_def
      CreateGLTexture_def CreateGLTexture_register_def gl_defs array_defs replicate_16)

subsection \<open>FindMaterial and SetShaderMaterial\<close>

lemma FindMaterial_nonempty_true:
  "m_objectMaterials sm \<noteq> [] \<Longrightarrow> fst (FindMaterial sm tg material) = True"
  by (simp add: FindMaterial_def)

text \<open>
  Claim C1. With the three materials of \<open>DefineObjectMaterials\<close> defined, the lookup of the
  tag \<open>plastic\<close>, which none of them carries, returns \<open>true\<close> and leaves the caller's
  material as it was.
\<close>

theorem FindMaterial_miss_returns_true:
  "FindMaterial (DefineObjectMaterials (loaded_scene :: (real, real) SceneManager))
     ''plastic'' stale_material = (True, stale_material)"
  by (simp add: FindMaterial_def DefineObjectMaterials_def loaded_scene_def
      FindMaterial_while.simps)

text \<open>
  Claim C10. On a scene manager built with a null shader manager and holding the three
  materials, \<open>SetShaderMaterial\<close> calls \<open>setVec3Value\<close> through the null pointer.
\<close>

theorem SetShaderMaterial_null_shader_manager:
  "SetShaderMaterial stale_material ''metal''
     (DefineObjectMaterials (SceneManager_new None gl_fresh :: (real, real) SceneManager))
   = Inl NullDereference"
  by (simp add: SetShaderMaterial_def FindMaterial_def DefineObjectMaterials_def
      SceneManager_new_def)

lemma guarded_setters_null:
  assumes "m_pShaderManager sm = None"
  shows "SetTransformations G scaleXYZ rx ry rz positionXYZ sm = sm"
    and "SetShaderColor r g b a sm = sm"
    and "SetShaderTexture textureTag sm = Inr sm"
    and "SetTextureUVScale u v sm = sm"
  using assms
  by (simp_all add: SetTransformations_def SetShaderColor_def SetShaderTexture_def
      SetTextureUVScale_def)

subsection \<open>SetShaderTexture\<close>

text \<open>
  Claim C6. With the four textures of the scene loaded, \<open>SetShaderTexture\<close> of the tag
  \<open>Wood\<close>, which is not registered, sets \<open>bUseTexture\<close> to true and uploads \<open>-1\<close> as the
  sampler of \<open>objectTexture\<close>.
\<close>

theorem SetShaderTexture_unregistered_uploads_sentinel:
  "SetShaderTexture ''Wood'' (loaded_scene :: (real, real) SceneManager) =
     Inr (loaded_scene\<lparr>m_pShaderManager :=
            Some [''bUseTexture'' \<mapsto> IntValue 1, ''objectTexture'' \<mapsto> Sampler2DValue (- 1)]\<rparr>)"
proof -
  have "FindTextureSlot (loaded_scene :: (real, real) SceneManager) ''Wood'' = Inr (- 1)"
    by (simp add: FindTextureSlot_def FindTextureSlot_while.simps loaded_scene_def array_defs)
  then show ?thesis
    by (simp add: SetShaderTexture_def loaded_scene_def setIntValue_def setSampler2DValue_def
        g_UseTextureName_def g_TextureValueName_def)
qed

subsection \<open>DestroyGLTextures\<close>

text \<open>
  Claim C7. The destructor, run on the scene with its four textures \<open>1, 2, 3, 4\<close>, leaves
  these four names allocated, allocates four more and stores the new names in the slots.
\<close>

theorem SceneManager_delete_generates_textures:
  "map_sum id (\<lambda>sm. (gl_names (gl sm), map ID (take 4 (m_textureIDs sm))))
     (SceneManager_delete (loaded_scene :: (real, real) SceneManager))
   = Inr ([1, 2, 3, 4, 5, 6, 7, 8], [5, 6, 7, 8])"
  by (simp add: SceneManager_delete_def DestroyGLTextures_def DestroyGLTextures_for.simps
      loaded_scene_def array_defs glGenTextures_def)

subsection \<open>SetTransformations\<close>

text \<open>
  Claim C3. With a shader manager present, \<open>SetTransformations\<close> stores under \<open>model\<close> the
  product of the translation, the rotation about z, the rotation about y, the rotation
  about x and the scale, in this order, each rotation by the angle that \<open>glm::radians\<close>
  makes of the degrees passed.
\<close>

theorem SetTransformations_uploads_product:
  assumes "m_pShaderManager sm = Some sh"
  shows "SetTransformations G s rx ry rz t sm =
     sm\<lparr>m_pShaderManager := Some (sh(''model'' \<mapsto> Mat4Value
       (glm_times G
         (glm_times G
           (glm_times G
             (glm_times G (glm_translate G t)
               (glm_rotate G (glm_radians G rz) (float_0 G, float_0 G, float_1 G)))
             (glm_rotate G (glm_radians G ry) (float_0 G, float_1 G, float_0 G)))
           (glm_rotate G (glm_radians G rx) (float_1 G, float_0 G, float_0 G)))
         (glm_scale G s))))\<rparr>"
  using assms
  by (simp add: SetTransformations_def modelView_def setMat4Value_def g_ModelName_def)

theorem SetTransformations_uploads_product_witness:
  "m_pShaderManager (loaded_scene :: (real, mat4_term) SceneManager) = Some Map.empty
   \<and> m_pShaderManager
       (SetTransformations glm_terms (2, 1, 1) 0 90 0 (1, 0, 0)
          (loaded_scene :: (real, mat4_term) SceneManager))
     = Some [''model'' \<mapsto> Mat4Value
         (Times (Times (Times (Times (Translate (1, 0, 0)) (Rotate 0 (0, 0, 1)))
            (Rotate (pi / 2) (0, 1, 0))) (Rotate 0 (1, 0, 0))) (Scale (2, 1, 1)))]"
proof -
  have h: "m_pShaderManager (loaded_scene :: (real, mat4_term) SceneManager) = Some Map.empty"
    by (simp add: loaded_scene_def)
  from SetTransformations_uploads_product [OF h, of glm_terms "(2, 1, 1)" 0 90 0 "(1, 0, 0)"] h
  show ?thesis by (simp add: glm_terms_def)
qed

subsection \<open>BindGLTextures\<close>

lemma BindGLTextures_for_result:
  assumes "length (m_textureIDs sm) = 16" and "m_loadedTextures sm \<le> 16" and "0 \<le> i"
  shows "BindGLTextures_for i sm =
     Inr (sm\<lparr>gl := (gl sm)
       \<lparr>gl_active := (if i < m_loadedTextures sm then m_loadedTextures sm - 1
                       else gl_active (gl sm)),
        gl_bound := (\<lambda>u. if i \<le> u \<and> u < m_loadedTextures sm
                          then ID (m_textureIDs sm ! nat u) else gl_bound (gl sm) u)\<rparr>\<rparr>)"
  using assms
proof (induction "nat (m_loadedTextures sm - i)" arbitrary: i sm)
  case 0
  then have ge: "\<not> i < m_loadedTextures sm" by simp
  then have "(\<lambda>u. if i \<le> u \<and> u < m_loadedTextures sm
                  then ID (m_textureIDs sm ! nat u) else gl_bound (gl sm) u)
             = gl_bound (gl sm)"
    by (auto simp: fun_eq_iff)
  with ge show ?case
    by (subst BindGLTextures_for.simps) simp
next
  case (Suc n)
  let ?t = "m_textureIDs sm ! nat i"
  let ?sm1 = "sm\<lparr>gl := glBindTexture (ID ?t) (glActiveTexture i (gl sm))\<rparr>"
  from Suc.hyps(2) have lt: "i < m_loadedTextures sm" by linarith
  with Suc.prems have rd: "array_read (m_textureIDs sm) i = Inr ?t"
    by (simp add: array_read_in)
  have step: "BindGLTextures_for i sm = BindGLTextures_for (i + 1) ?sm1"
    using lt rd by (subst BindGLTextures_for.simps) simp
  have n: "n = nat (m_loadedTextures ?sm1 - (i + 1))"
    using Suc.hyps(2) by simp
  have ih: "BindGLTextures_for (i + 1) ?sm1 =
     Inr (?sm1\<lparr>gl := (gl ?sm1)
       \<lparr>gl_active := (if i + 1 < m_loadedTextures ?sm1 then m_loadedTextures ?sm1 - 1
                       else gl_active (gl ?sm1)),
        gl_bound := (\<lambda>u. if i + 1 \<le> u \<and> u < m_loadedTextures ?sm1
                          then ID (m_textureIDs ?sm1 ! nat u) else gl_bound (gl ?sm1) u)\<rparr>\<rparr>)"
    using Suc.prems by (intro Suc.hyps(1) [OF n]) auto
  have bound: "(\<lambda>u. if i + 1 \<le> u \<and> u < m_loadedTextures sm
                  then ID (m_textureIDs sm ! nat u)
                  else ((gl_bound (gl sm))(i := ID ?t)) u)
             = (\<lambda>u. if i \<le> u \<and> u < m_loadedTextures sm
                  then ID (m_textureIDs sm ! nat u) else gl_bound (gl sm) u)"
    using lt by (auto simp: fun_eq_iff)
  have active: "(if i + 1 < m_loadedTextures sm then m_loadedTextures sm - 1 else i)
                = m_loadedTextures sm - 1"
    using lt by auto
  show ?case
  proof -
    have sel: "m_loadedTextures ?sm1 = m_loadedTextures sm" "m_textureIDs ?sm1 = m_textureIDs sm"
      "gl_bound (gl ?sm1) = (gl_bound (gl sm))(i := ID ?t)" "gl_active (gl ?sm1) = i"
      by (simp_all add: glBindTexture_def glActiveTexture_def)
    show ?thesis
      unfolding step ih sel unfolding bound active using lt
      by (simp add: glBindTexture_def glActiveTexture_def)
  qed
qed

text \<open>
  Claim C9. On a table of 16 slots whose count has not run past them, \<open>BindGLTextures\<close>
  leaves the table and the count as they are and binds, for each index below the count,
  the handle of that slot on the texture unit of the same index; a second call right
  after the first returns the very state the first call returned.
\<close>

theorem BindGLTextures_idempotent:
  assumes "registry_ok sm"
  shows "\<exists>sm1. BindGLTextures sm = Inr sm1
           \<and> m_textureIDs sm1 = m_textureIDs sm
           \<and> m_loadedTextures sm1 = m_loadedTextures sm
           \<and> (\<forall>i. 0 \<le> i \<and> i < m_loadedTextures sm
                  \<longrightarrow> gl_bound (gl sm1) i = ID (m_textureIDs sm ! nat i))
           \<and> BindGLTextures sm1 = Inr sm1"
proof -
  let ?g1 = "(gl sm)
       \<lparr>gl_active := (if 0 < m_loadedTextures sm then m_loadedTextures sm - 1
                       else gl_active (gl sm)),
        gl_bound := (\<lambda>u. if 0 \<le> u \<and> u < m_loadedTextures sm
                          then ID (m_textureIDs sm ! nat u) else gl_bound (gl sm) u)\<rparr>"
  let ?sm1 = "sm\<lparr>gl := ?g1\<rparr>"
  from assms have len: "length (m_textureIDs sm) = 16" and le: "m_loadedTextures sm \<le> 16"
    by (simp_all add: registry_ok_def)
  have first: "BindGLTextures sm = Inr ?sm1"
    unfolding BindGLTextures_def by (rule BindGLTextures_for_result [OF len le]) simp
  have "BindGLTextures ?sm1 =
     Inr (?sm1\<lparr>gl := (gl ?sm1)
       \<lparr>gl_active := (if 0 < m_loadedTextures ?sm1 then m_loadedTextures ?sm1 - 1
                       else gl_active (gl ?sm1)),
        gl_bound := (\<lambda>u. if 0 \<le> u \<and> u < m_loadedTextures ?sm1
                          then ID (m_textureIDs ?sm1 ! nat u) else gl_bound (gl ?sm1) u)\<rparr>\<rparr>)"
    unfolding BindGLTextures_def using len le by (intro BindGLTextures_for_result) auto
  moreover have "(\<lambda>u. if 0 \<le> u \<and> u < m_loadedTextures sm
                  then ID (m_textureIDs sm ! nat u)
                  else if 0 \<le> u \<and> u < m_loadedTextures sm
                       then ID (m_textureIDs sm ! nat u) else gl_bound (gl sm) u)
             = (\<lambda>u. if 0 \<le> u \<and> u < m_loadedTextures sm
                  then ID (m_textureIDs sm ! nat u) else gl_bound (gl sm) u)"
    by (auto simp: fun_eq_iff)
  ultimately have second: "BindGLTextures ?sm1 = Inr ?sm1"
    by (simp cong: if_cong)
  show ?thesis
    using first second by (intro exI [of _ ?sm1]) simp
qed

theorem BindGLTextures_idempotent_witness:
  "registry_ok (loaded_scene\<lparr>gl := gl_fresh\<rparr> :: (real, real) SceneManager)
   \<and> (\<exists>sm1. BindGLTextures (loaded_scene\<lparr>gl := gl_fresh\<rparr> :: (real, real) SceneManager) = Inr sm1
         \<and> m_textureIDs sm1 = m_textureIDs (loaded_scene :: (real, real) SceneManager)
         \<and> m_loadedTextures sm1 = 4
         \<and> gl_bound (gl sm1) 2 = 3
         \<and> BindGLTextures sm1 = Inr sm1)"
proof -
  let ?sm = "loaded_scene\<lparr>gl := gl_fresh\<rparr> :: (real, real) SceneManager"
  have ok: "registry_ok ?sm"
    by (simp add: registry_ok_def loaded_scene_def)
  from BindGLTextures_idempotent [OF ok] obtain sm1 where
    r: "BindGLTextures ?sm = Inr sm1" "m_textureIDs sm1 = m_textureIDs ?sm"
      "m_loadedTextures sm1 = m_loadedTextures ?sm" "BindGLTextures sm1 = Inr sm1"
    and b: "\<forall>i. 0 \<le> i \<and> i < m_loadedTextures ?sm
              \<longrightarrow> gl_bound (gl sm1) i = ID (m_textureIDs ?sm ! nat i)"
    by blast
  have in_range: "(0::int) \<le> 2 \<and> 2 < m_loadedTextures ?sm"
    by (simp add: loaded_scene_def)
  with b have "gl_bound (gl sm1) 2 = ID (m_textureIDs ?sm ! nat 2)"
    by blast
  then have two: "gl_bound (gl sm1) 2 = 3"
    by (simp add: loaded_scene_def)
  from r two have "BindGLTextures ?sm = Inr sm1
         \<and> m_textureIDs sm1 = m_textureIDs (loaded_scene :: (real, real) SceneManager)
         \<and> m_loadedTextures sm1 = 4
         \<and> gl_bound (gl sm1) 2 = 3
         \<and> BindGLTextures sm1 = Inr sm1"
    by (simp add: loaded_scene_def)
  with ok show ?thesis by blast
qed


subsection \<open>The table after a sequence of registrations\<close>

lemma CreateGLTexture_seq_fill:
  assumes "length (m_textureIDs sm) = 16" and "m_loadedTextures sm = int n"
    and "n + length (filter (loadable stbi_load) calls) \<le> 16"
  shows "\<exists>sm'. CreateGLTexture_seq stbi_load calls sm = Inr sm'
           \<and> length (m_textureIDs sm') = 16
           \<and> m_loadedTextures sm' = int (n + length (filter (loadable stbi_load) calls))
           \<and> take (n + length (filter (loadable stbi_load) calls))
                 (map TEXTURE_INFO.tag (m_textureIDs sm'))
               = take n (map TEXTURE_INFO.tag (m_textureIDs sm))
                   @ map snd (filter (loadable stbi_load) calls)
           \<and> drop (n + length (filter (loadable stbi_load) calls)) (m_textureIDs sm')
               = drop (n + length (filter (loadable stbi_load) calls)) (m_textureIDs sm)"
  using assms
proof (induction calls arbitrary: sm n)
  case Nil
  then show ?case by simp
next
  case (Cons c calls)
  obtain filename tg where c: "c = (filename, tg)" by (cases c)
  let ?k = "length (filter (loadable stbi_load) calls)"
  show ?case
  proof (cases "loadable stbi_load (filename, tg)")
    case False
    from CreateGLTexture_not_loadable [OF False, of sm] obtain sm1 where
      s1: "CreateGLTexture stbi_load filename tg sm = Inr (False, sm1)"
        "m_textureIDs sm1 = m_textureIDs sm" "m_loadedTextures sm1 = m_loadedTextures sm"
      by blast
    from Cons.prems False c have "n + ?k \<le> 16" by simp
    with Cons.IH [of sm1 n] s1 Cons.prems(1,2) obtain sm' where
      "CreateGLTexture_seq stbi_load calls sm1 = Inr sm'"
      "length (m_textureIDs sm') = 16"
      "m_loadedTextures sm' = int (n + ?k)"
      "take (n + ?k) (map TEXTURE_INFO.tag (m_textureIDs sm'))
         = take n (map TEXTURE_INFO.tag (m_textureIDs sm)) @ map snd (filter (loadable stbi_load) calls)"
      "drop (n + ?k) (m_textureIDs sm') = drop (n + ?k) (m_textureIDs sm)"
      by auto
    with s1 False c show ?thesis by simp
  next
    case True
    from Cons.prems True c have room: "Suc n + ?k \<le> 16" by simp
    then have n: "n < 16" by simp
    let ?slots1 = "(m_textureIDs sm)[n := \<lparr>TEXTURE_INFO.tag = tg, ID = gl_next (gl sm)\<rparr>]"
    from CreateGLTexture_loadable [OF True, of sm] n Cons.prems(1,2) obtain g' where
      s1: "CreateGLTexture stbi_load filename tg sm =
             Inr (True, sm\<lparr>m_textureIDs := ?slots1, m_loadedTextures := int n + 1, gl := g'\<rparr>)"
      by (auto simp: array_write_def)
    let ?sm1 = "sm\<lparr>m_textureIDs := ?slots1, m_loadedTextures := int n + 1, gl := g'\<rparr>"
    have "length (m_textureIDs ?sm1) = 16" "m_loadedTextures ?sm1 = int (Suc n)"
      using Cons.prems(1) by simp_all
    from Cons.IH [OF this room] obtain sm' where
      r: "CreateGLTexture_seq stbi_load calls ?sm1 = Inr sm'"
        "length (m_textureIDs sm') = 16"
        "m_loadedTextures sm' = int (Suc n + ?k)"
        "take (Suc n + ?k) (map TEXTURE_INFO.tag (m_textureIDs sm'))
           = take (Suc n) (map TEXTURE_INFO.tag (m_textureIDs ?sm1))
               @ map snd (filter (loadable stbi_load) calls)"
        "drop (Suc n + ?k) (m_textureIDs sm') = drop (Suc n + ?k) (m_textureIDs ?sm1)"
      by blast
    have t: "take (Suc n) (map TEXTURE_INFO.tag (m_textureIDs ?sm1))
               = take n (map TEXTURE_INFO.tag (m_textureIDs sm)) @ [tg]"
      using n Cons.prems(1) by (simp add: take_Suc_conv_app_nth map_update)
    have d: "drop (Suc n + ?k) (m_textureIDs ?sm1) = drop (Suc n + ?k) (m_textureIDs sm)"
      by simp
    from r t d s1 True c show ?thesis by simp
  qed
qed

text \<open>
  Claim C8, first part as stated: two registrations under one tag leave two registered
  slots with that tag.
\<close>

theorem CreateGLTexture_repeated_tag:
  "map_sum id registered_tags
     (CreateGLTexture_seq scene_files
        [(''textures/Steel.jpg'', ''Steel''), (''textures/BlackBezzle.jpg'', ''Steel'')]
        (SceneManager_new None gl_fresh :: (real, real) SceneManager))
   = Inr [''Steel'', ''Steel'']
   \<and> \<not> distinct [''Steel'', ''Steel'']"
  by (simp add: scene_files_def SceneManager_new_def gl_fresh_def CreateGLTexture_def
      CreateGLTexture_register_def gl_defs array_defs replicate_16 registered_tags_def)

text \<open>
  Claim C8, amended. From a new scene manager, a sequence of calls of which at most 16
  pass the two tests of \<open>CreateGLTexture\<close> runs to its end; the count is then the number
  of these calls, the slots below the count carry their tags in the order of the calls,
  every slot from the count on is as the constructor left it, and the registered tags
  are pairwise different when the tags of these calls are.
\<close>

theorem CreateGLTexture_seq_contiguous:
  assumes "length (filter (loadable stbi_load) calls) \<le> 16"
  shows "\<exists>sm'. CreateGLTexture_seq stbi_load calls (SceneManager_new p g) = Inr sm'
           \<and> length (m_textureIDs sm') = 16
           \<and> m_loadedTextures sm' = int (length (filter (loadable stbi_load) calls))
           \<and> registered_tags sm' = map snd (filter (loadable stbi_load) calls)
           \<and> drop (nat (m_loadedTextures sm')) (m_textureIDs sm')
               = replicate (16 - nat (m_loadedTextures sm')) empty_slot
           \<and> (distinct (map snd (filter (loadable stbi_load) calls))
                \<longrightarrow> distinct (registered_tags sm'))"
proof -
  let ?sm = "SceneManager_new p g :: ('a, 'b) SceneManager"
  let ?k = "length (filter (loadable stbi_load) calls)"
  have "length (m_textureIDs ?sm) = 16" "m_loadedTextures ?sm = int 0"
    by (simp_all add: SceneManager_new_def)
  moreover from assms have "0 + ?k \<le> 16" by simp
  ultimately obtain sm' where
    r: "CreateGLTexture_seq stbi_load calls ?sm = Inr sm'"
      "length (m_textureIDs sm') = 16"
      "m_loadedTextures sm' = int (0 + ?k)"
      "take (0 + ?k) (map TEXTURE_INFO.tag (m_textureIDs sm'))
         = take 0 (map TEXTURE_INFO.tag (m_textureIDs ?sm))
             @ map snd (filter (loadable stbi_load) calls)"
      "drop (0 + ?k) (m_textureIDs sm') = drop (0 + ?k) (m_textureIDs ?sm)"
    using CreateGLTexture_seq_fill [of ?sm 0 stbi_load calls] by blast
  from r(3,4) have tags: "registered_tags sm' = map snd (filter (loadable stbi_load) calls)"
    by (simp add: registered_tags_def take_map)
  from r(3,5) have rest: "drop (nat (m_loadedTextures sm')) (m_textureIDs sm')
      = replicate (16 - nat (m_loadedTextures sm')) empty_slot"
    by (simp add: SceneManager_new_def)
  from r(1,2,3) tags rest show ?thesis by auto
qed

theorem CreateGLTexture_seq_contiguous_witness:
  "length (filter (loadable scene_files)
      [(''textures/Steel.jpg'', ''Steel''), (''textures/grey.png'', ''Grey''),
       (''textures/BlackBezzle.jpg'', ''BlackBezzle'')]) \<le> 16
   \<and> distinct (map snd (filter (loadable scene_files)
      [(''textures/Steel.jpg'', ''Steel''), (''textures/grey.png'', ''Grey''),
       (''textures/BlackBezzle.jpg'', ''BlackBezzle'')]))
   \<and> (\<exists>sm'. CreateGLTexture_seq scene_files
          [(''textures/Steel.jpg'', ''Steel''), (''textures/grey.png'', ''Grey''),
           (''textures/BlackBezzle.jpg'', ''BlackBezzle'')]
          (SceneManager_new None gl_fresh :: (real, real) SceneManager) = Inr sm'
        \<and> length (m_textureIDs sm') = 16
        \<and> m_loadedTextures sm' = 2
        \<and> registered_tags sm' = [''Steel'', ''BlackBezzle'']
        \<and> drop 2 (m_textureIDs sm') = replicate 14 empty_slot
        \<and> distinct (registered_tags sm'))"
proof -
  let ?calls = "[(''textures/Steel.jpg'', ''Steel''), (''textures/grey.png'', ''Grey''),
       (''textures/BlackBezzle.jpg'', ''BlackBezzle'')]"
  have f: "filter (loadable scene_files) ?calls
      = [(''textures/Steel.jpg'', ''Steel''), (''textures/BlackBezzle.jpg'', ''BlackBezzle'')]"
    by (simp add: loadable_def scene_files_def)
  then have le: "length (filter (loadable scene_files) ?calls) \<le> 16"
    and di: "distinct (map snd (filter (loadable scene_files) ?calls))"
    by simp_all
  from CreateGLTexture_seq_contiguous [OF le, of None gl_fresh] di
  have "\<exists>sm'. CreateGLTexture_seq scene_files ?calls
          (SceneManager_new None gl_fresh :: (real, real) SceneManager) = Inr sm'
        \<and> length (m_textureIDs sm') = 16
        \<and> m_loadedTextures sm' = 2
        \<and> registered_tags sm' = [''Steel'', ''BlackBezzle'']
        \<and> drop 2 (m_textureIDs sm') = replicate 14 empty_slot
        \<and> distinct (registered_tags sm')"
    unfolding f by auto
  with le di show ?thesis by blast
qed


end
